theory Spec2Isabelle
  imports Main "HOL-Library.Log_Nat"
begin

section \<open>JavaScript numbers\<close>

text \<open>
  Every amount of the expense backend is a JavaScript number, that is an IEEE 754 binary64
  value. A finite number is modelled by the rational it denotes. Each arithmetic
  operation of the source is the exact rational operation followed by a rounding
  \<open>fl\<close>, which every function of the model takes as its first argument:
  \<^item> \<open>binary64\<close> rounds to the nearest value with a 53-bit significand, ties to even
    (the arithmetic the code runs on; infinities, NaN and overflow are not modelled);
  \<^item> \<open>exact\<close> rounds nothing (the arithmetic of decimal money, in which the general
    results below are proved).
\<close>

definition exact :: "rat \<Rightarrow> rat" where
  "exact x = x"

definition pow2 :: "int \<Rightarrow> rat" where
  "pow2 k = (if 0 \<le> k then 2 ^ nat k else 1 / 2 ^ nat (- k))"

definition ilog2 :: "rat \<Rightarrow> int" where
  \<comment> \<open>the binary exponent \<open>e\<close> of a non-zero \<open>x\<close>: \<open>2 ^ e \<le> \<bar>x\<bar> < 2 ^ (e + 1)\<close>\<close>
  "ilog2 x = (let (p, q) = quotient_of \<bar>x\<bar>; d = bitlen p - bitlen q
              in if pow2 d \<le> \<bar>x\<bar> then d else d - 1)"

definition roundHalfEven :: "rat \<Rightarrow> int" where
  "roundHalfEven r = (let f = \<lfloor>r\<rfloor>; d = r - of_int f
     in if d < 1 / 2 then f else if 1 / 2 < d then f + 1
        else if f mod 2 = 0 then f else f + 1)"

definition binary64 :: "rat \<Rightarrow> rat" where
  "binary64 x = (if x = 0 then 0
     else let e = max (ilog2 x) (- 1022); q = pow2 (e - 52)
          in of_int (roundHalfEven (x / q)) * q)"

definition toFixed2 :: "(rat \<Rightarrow> rat) \<Rightarrow> rat \<Rightarrow> rat" where
  \<comment> \<open>\<open>parseFloat(x.toFixed(2))\<close>: \<open>toFixed\<close> takes the integer \<open>n\<close> with \<open>n / 100\<close>
      nearest to \<open>\<bar>x\<bar>\<close>, the larger one of two, and prints it with the sign of \<open>x\<close>;
      \<open>parseFloat\<close> reads the decimal back as a number.\<close>
  "toFixed2 fl x = fl ((if x < 0 then - 1 else 1) * of_int \<lfloor>\<bar>x\<bar> * 100 + 1 / 2\<rfloor> / 100)"


section \<open>Splitting an expense (expense service)\<close>

text \<open>
  An entry of \<open>splitBetween\<close> in the request: the user, and the amount (read by the EXACT
  policy) or percentage (read by PERCENTAGE). A field that the policy reads is taken to
  be present and finite.
\<close>

record participant =
  userId :: string
  amount :: rat
  percentage :: rat

text \<open>A computed split \<open>{userId, amount, percentage?}\<close>, as stored with the expense.\<close>

datatype split = Split (split_userId: string) (split_amount: rat) (split_percentage: "rat option")

text \<open>
  The \<open>AppError\<close>s thrown on the paths modelled here, one constructor for each
  \<open>throw\<close>, carrying the numbers interpolated into the message.
\<close>

datatype error =
    ExactSumMismatch rat rat
      \<comment> \<open>The sum of exact amounts (..) does not equal the total expense amount (..)\<close>
  | PercentageSumMismatch rat
      \<comment> \<open>The sum of percentages (..%) must equal 100%\<close>
  | InvalidSplitType
      \<comment> \<open>Invalid split type. Must be EQUAL, EXACT, or PERCENTAGE\<close>
  | MissingRequiredFields
      \<comment> \<open>Missing required fields\<close>
  | AmountNotPositive
      \<comment> \<open>Amount must be a positive number\<close>
  | EmptyParticipantSet
      \<comment> \<open>At least one user must be included in the split\<close>
  | NotAMember
      \<comment> \<open>You are not a member of this group\<close>
  | UsersNotMembers
      \<comment> \<open>One or more users are not members of this group\<close>

definition statusCode :: "error \<Rightarrow> nat" where
  "statusCode e = (if e = NotAMember then 403 else 400)"

text \<open>
  \<open>calculateSplits(amount, splitType, splitBetween)\<close>. The \<open>forEach\<close> loops that push
  onto \<open>splits\<close> and add to \<open>totalAmount\<close> / \<open>totalPercentage\<close> are folds over that
  pair. With no participant the EQUAL branch divides by zero; its loop body then never
  runs, so the quotient is not used.
\<close>

definition calculateSplits ::
  "(rat \<Rightarrow> rat) \<Rightarrow> rat \<Rightarrow> string \<Rightarrow> participant list \<Rightarrow> error + split list" where
  "calculateSplits fl amt splitType splitBetween =
    (if splitType = ''EQUAL'' then
       (let n = length splitBetween;
            splitAmount = toFixed2 fl (fl (amt / of_nat n));
            lastAmount = fl (amt - fl (splitAmount * (of_nat n - 1)))
        in Inr (map (\<lambda>index.
                  let isLast = (int index = int n - 1)
                  in Split (userId (splitBetween ! index))
                       (if isLast then toFixed2 fl lastAmount else splitAmount) None)
                [0..<n]))
     else if splitType = ''EXACT'' then
       (let (totalAmount, splits) =
              fold (\<lambda>s (total, acc).
                      (fl (total + amount s), acc @ [Split (userId s) (amount s) None]))
                splitBetween (0, [])
        in if totalAmount \<noteq> amt then Inl (ExactSumMismatch totalAmount amt)
           else Inr splits)
     else if splitType = ''PERCENTAGE'' then
       (let (totalPercentage, splits) =
              fold (\<lambda>s (total, acc).
                      (fl (total + percentage s),
                       acc @ [Split (userId s)
                                (toFixed2 fl (fl (fl (amt * percentage s) / 100)))
                                (Some (percentage s))]))
                splitBetween (0, [])
        in if totalPercentage \<noteq> 100 then Inl (PercentageSumMismatch totalPercentage)
           else Inr splits)
     else Inl InvalidSplitType)"




text \<open>Request entries as a client sends them for each policy.\<close>

definition equalShare :: "string \<Rightarrow> participant" where
  "equalShare u = \<lparr>userId = u, amount = 0, percentage = 0\<rparr>"

definition exactShare :: "string \<Rightarrow> rat \<Rightarrow> participant" where
  "exactShare u a = \<lparr>userId = u, amount = a, percentage = 0\<rparr>"


section \<open>Net balances of a group (balance service)\<close>

text \<open>An expense as the balance service reads it, with its stored splits.\<close>

record expense =
  paidById :: string
  expense_amount :: rat
  splits :: "split list"

text \<open>
  A JavaScript \<open>Map\<close> from user to amount keeps its keys in insertion order, and
  \<open>minimizeCashFlow\<close> reads them in that order: the map is an association list.
  \<open>set\<close> keeps the position of a key that is present and appends a new one.
\<close>

type_synonym balances = "(string \<times> rat) list"

definition map_has :: "balances \<Rightarrow> string \<Rightarrow> bool" where
  "map_has m k = (k \<in> set (map fst m))"

definition map_get :: "balances \<Rightarrow> string \<Rightarrow> rat" where
  \<comment> \<open>only called on a key that is present\<close>
  "map_get m k = (case map_of m k of Some v \<Rightarrow> v | None \<Rightarrow> 0)"

fun map_set :: "balances \<Rightarrow> string \<Rightarrow> rat \<Rightarrow> balances" where
  "map_set [] k v = [(k, v)]"
| "map_set ((k', v') # m) k v = (if k' = k then (k, v) # m else (k', v') # map_set m k v)"

definition parseFloat :: "(rat \<Rightarrow> rat) \<Rightarrow> rat \<Rightarrow> rat" where
  \<comment> \<open>the number read from a stored decimal\<close>
  "parseFloat fl x = fl x"

definition debitSplit :: "(rat \<Rightarrow> rat) \<Rightarrow> split \<Rightarrow> balances \<Rightarrow> balances" where
  \<comment> \<open>the body of \<open>expense.splits.forEach\<close>\<close>
  "debitSplit fl sp bal =
    (let userId = split_userId sp;
         amount = parseFloat fl (split_amount sp);
         bal1 = (if \<not> map_has bal userId then map_set bal userId 0 else bal)
     in map_set bal1 userId (fl (map_get bal1 userId - amount)))"

definition addExpense :: "(rat \<Rightarrow> rat) \<Rightarrow> expense \<Rightarrow> balances \<Rightarrow> balances" where
  \<comment> \<open>the body of \<open>expenses.forEach\<close>\<close>
  "addExpense fl e bal =
    (let paidBy = paidById e;
         totalAmount = parseFloat fl (expense_amount e);
         bal1 = (if \<not> map_has bal paidBy then map_set bal paidBy 0 else bal);
         bal2 = map_set bal1 paidBy (fl (map_get bal1 paidBy + totalAmount))
     in fold (debitSplit fl) (splits e) bal2)"

definition calculateBalances :: "(rat \<Rightarrow> rat) \<Rightarrow> expense list \<Rightarrow> balances" where
  "calculateBalances fl expenses = fold (addExpense fl) expenses []"

section \<open>Debt simplification (balance service)\<close>

text \<open>A suggested payment \<open>{from, to, amount}\<close>.\<close>

datatype transaction = Transaction (from_user: string) (to_user: string) (txn_amount: rat)

text \<open>
  The two \<open>reduce\<close> calls: the index of the first largest and of the first smallest
  amount, starting from index 0.
\<close>

definition maxCreditIdx :: "balances \<Rightarrow> nat" where
  "maxCreditIdx arr =
     fold (\<lambda>idx maxIdx. if snd (arr ! idx) > snd (arr ! maxIdx) then idx else maxIdx)
       [0..<length arr] 0"

definition maxDebitIdx :: "balances \<Rightarrow> nat" where
  "maxDebitIdx arr =
     fold (\<lambda>idx minIdx. if snd (arr ! idx) < snd (arr ! minIdx) then idx else minIdx)
       [0..<length arr] 0"

definition minAmount :: "balances \<Rightarrow> rat" where
  "minAmount arr =
     min \<bar>snd (arr ! maxCreditIdx arr)\<bar> \<bar>snd (arr ! maxDebitIdx arr)\<bar>"

definition splice :: "nat \<Rightarrow> 'a list \<Rightarrow> 'a list" where
  \<comment> \<open>\<open>arr.splice(i, 1)\<close>; nothing is removed when \<open>i\<close> is past the end\<close>
  "splice i xs = take i xs @ drop (Suc i) xs"

text \<open>
  One pass through the body of the \<open>while\<close> loop, on the pair of \<open>nonZeroBalances\<close>
  and \<open>transactions\<close>. \<open>maxCredit\<close> and \<open>maxDebit\<close> are references into the array: when
  both indices are the same, both updates hit the same entry, and the two tests read the
  entries after both updates.
\<close>

definition settle ::
  "(rat \<Rightarrow> rat) \<Rightarrow> balances \<times> transaction list \<Rightarrow> balances \<times> transaction list" where
  "settle fl st =
    (let nonZeroBalances = fst st;
         creditIdx = maxCreditIdx nonZeroBalances;
         debitIdx = maxDebitIdx nonZeroBalances;
         moved = minAmount nonZeroBalances;
         transactions = snd st @
           [Transaction (fst (nonZeroBalances ! debitIdx)) (fst (nonZeroBalances ! creditIdx))
              (toFixed2 fl moved)];
         b1 = nonZeroBalances[creditIdx :=
                (fst (nonZeroBalances ! creditIdx),
                 fl (snd (nonZeroBalances ! creditIdx) - moved))];
         b2 = b1[debitIdx := (fst (b1 ! debitIdx), fl (snd (b1 ! debitIdx) + moved))];
         creditSettled = (\<bar>snd (b2 ! creditIdx)\<bar> < fl (1 / 100));
         debitSettled = (\<bar>snd (b2 ! debitIdx)\<bar> < fl (1 / 100));
         b3 = (if creditSettled then splice creditIdx b2 else b2);
         removalIdx = (if debitIdx > creditIdx \<and> creditSettled then debitIdx - 1
                       else debitIdx);
         b4 = (if debitSettled then splice removalIdx b3 else b3)
     in (b4, transactions))"

text \<open>
  The \<open>while\<close> loop. Nothing in the source bounds the number of passes, so the loop is a
  partial function: \<open>None\<close> is a run that never leaves the loop.
\<close>

partial_function (option) settleAll ::
  "(rat \<Rightarrow> rat) \<Rightarrow> balances \<times> transaction list \<Rightarrow> transaction list option" where
  "settleAll fl st =
     (if length (fst st) > 1 then settleAll fl (settle fl st) else Some (snd st))"

declare settleAll.simps [code]


definition nonZeroBalances :: "(rat \<Rightarrow> rat) \<Rightarrow> balances \<Rightarrow> balances" where
  \<comment> \<open>amounts rounded to two decimals; then those of magnitude above 0.01 are kept\<close>
  "nonZeroBalances fl bal =
     filter (\<lambda>user. \<bar>snd user\<bar> > fl (1 / 100))
       (map (\<lambda>(userId, amount). (userId, toFixed2 fl amount)) bal)"

definition minimizeCashFlow :: "(rat \<Rightarrow> rat) \<Rightarrow> balances \<Rightarrow> transaction list option" where
  "minimizeCashFlow fl bal = settleAll fl (nonZeroBalances fl bal, [])"









section \<open>Rounding to two decimals\<close>

text \<open>
  Some values of \<open>binary64\<close>: numbers that are representable stay as they are, 0.1
  becomes \<open>3602879701896397 / 2 ^ 55\<close>, and a tie goes to the even significand.
\<close>

lemma binary64_samples:
  "binary64 1 = 1"
  "binary64 (1 / 2) = 1 / 2"
  "binary64 (- 30) = - 30"
  "binary64 (1 / 10) = 3602879701896397 / 2 ^ 55"
  "binary64 (binary64 (1 / 10)) = binary64 (1 / 10)"
  "binary64 (2 ^ 53 + 1) = 2 ^ 53"
  "binary64 (2 ^ 53 + 3) = 2 ^ 53 + 4"
  by code_simp+











section \<open>Properties of \<open>calculateSplits\<close>\<close>

subsection \<open>The three policies as closed forms\<close>

lemma fold_accumulate:
  "fold (\<lambda>s (total, acc). (fl (total + f s), acc @ [g s])) xs (t, acc)
     = (foldl (\<lambda>total s. fl (total + f s)) t xs, acc @ map g xs)"
  by (induction xs arbitrary: t acc) simp_all


lemma calculateSplits_EXACT_fl:
  "calculateSplits fl amt ''EXACT'' splitBetween =
     (let totalAmount = foldl (\<lambda>total s. fl (total + amount s)) 0 splitBetween
      in if totalAmount \<noteq> amt then Inl (ExactSumMismatch totalAmount amt)
         else Inr (map (\<lambda>s. Split (userId s) (amount s) None) splitBetween))"
  by (simp add: calculateSplits_def fold_accumulate [where fl = fl] Let_def)









text \<open>
  Claim C10. Under the EXACT policy the amounts are added up one by one in the arithmetic
  of the numbers, and the call fails as soon as that sum differs from the expense amount
  (\<open>!==\<close>, no tolerance). On binary64 numbers 0.1 + 0.2 is 0.30000000000000004,
  not the number 0.3, so the splits 0.1 and 0.2 of an amount 0.3 are rejected, although the
  decimals add up (in exact arithmetic the call succeeds).
\<close>

theorem calculateSplits_EXACT_strict:
  "calculateSplits fl amt ''EXACT'' splitBetween =
     (if foldl (\<lambda>total s. fl (total + amount s)) 0 splitBetween \<noteq> amt
      then Inl (ExactSumMismatch (foldl (\<lambda>total s. fl (total + amount s)) 0 splitBetween) amt)
      else Inr (map (\<lambda>s. Split (userId s) (amount s) None) splitBetween))
   \<and> calculateSplits binary64 (binary64 (3 / 10)) ''EXACT''
         [exactShare ''A'' (binary64 (1 / 10)), exactShare ''B'' (binary64 (2 / 10))]
       = Inl (ExactSumMismatch (binary64 (binary64 (1 / 10) + binary64 (2 / 10)))
                (binary64 (3 / 10)))
   \<and> binary64 (binary64 (1 / 10) + binary64 (2 / 10)) = 1351079888211149 / 4503599627370496
   \<and> binary64 (3 / 10) = 5404319552844595 / 18014398509481984
   \<and> calculateSplits exact (3 / 10) ''EXACT'' [exactShare ''A'' (1 / 10), exactShare ''B'' (2 / 10)]
       = Inr [Split ''A'' (1 / 10) None, Split ''B'' (2 / 10) None]"
proof -
  have "calculateSplits fl amt ''EXACT'' splitBetween =
     (if foldl (\<lambda>total s. fl (total + amount s)) 0 splitBetween \<noteq> amt
      then Inl (ExactSumMismatch (foldl (\<lambda>total s. fl (total + amount s)) 0 splitBetween) amt)
      else Inr (map (\<lambda>s. Split (userId s) (amount s) None) splitBetween))"
    unfolding calculateSplits_EXACT_fl Let_def by simp
  moreover have "calculateSplits binary64 (binary64 (3 / 10)) ''EXACT''
         [exactShare ''A'' (binary64 (1 / 10)), exactShare ''B'' (binary64 (2 / 10))]
       = Inl (ExactSumMismatch (binary64 (binary64 (1 / 10) + binary64 (2 / 10)))
                (binary64 (3 / 10)))"
    by code_simp
  moreover have "binary64 (binary64 (1 / 10) + binary64 (2 / 10))
      = 1351079888211149 / 4503599627370496"
    by code_simp
  moreover have "binary64 (3 / 10) = 5404319552844595 / 18014398509481984"
    by code_simp
  moreover have "calculateSplits exact (3 / 10) ''EXACT''
        [exactShare ''A'' (1 / 10), exactShare ''B'' (2 / 10)]
       = Inr [Split ''A'' (1 / 10) None, Split ''B'' (2 / 10) None]"
    by code_simp
  ultimately show ?thesis by (intro conjI)
qed

text \<open>Claim C10 at 100 split 40 + 60 (accepted) and 40 + 50 (rejected).\<close>

theorem calculateSplits_EXACT_strict_witness:
  "calculateSplits exact 100 ''EXACT'' [exactShare ''A'' 40, exactShare ''B'' 60]
     = Inr [Split ''A'' 40 None, Split ''B'' 60 None]
   \<and> calculateSplits exact 100 ''EXACT'' [exactShare ''A'' 40, exactShare ''B'' 50]
     = Inl (ExactSumMismatch 90 100)"
  using conjunct1 [OF calculateSplits_EXACT_strict,
        of exact 100 "[exactShare ''A'' 40, exactShare ''B'' 60]"]
      conjunct1 [OF calculateSplits_EXACT_strict,
        of exact 100 "[exactShare ''A'' 40, exactShare ''B'' 50]"]
  by (simp add: exactShare_def exact_def)




section \<open>Properties of \<open>calculateBalances\<close>\<close>










section \<open>Properties of \<open>minimizeCashFlow\<close>\<close>

subsection \<open>The two index searches\<close>







subsection \<open>Sums over a working set\<close>







subsection \<open>Removing settled entries\<close>






subsection \<open>One pass on a working set of non-zero two-decimal amounts\<close>








subsection \<open>One pass on a working set that sums to zero\<close>






subsection \<open>The loop\<close>







lemma settleAll_diverges:
  assumes "1 < length ws" "\<And>ts. fst (settle fl (ws, ts)) = ws"
  shows "settleAll fl (ws, ts) = None"
proof -
  have "fl' = fl \<longrightarrow> fst st \<noteq> ws" if "settleAll fl' st = Some y" for fl' st y
  proof (rule settleAll.raw_induct
      [where P = "\<lambda>fl' st y. fl' = fl \<longrightarrow> fst st \<noteq> ws", OF _ that], goal_cases)
    case (1 f fl' st y)
    show ?case
    proof (intro impI notI)
      assume e: "fl' = fl" and s: "fst st = ws"
      from 1(2) have "f fl (settle fl st) = Some y"
        unfolding e using assms(1) s by simp
      from 1(1) [OF this] have "fst (settle fl st) \<noteq> ws" by simp
      moreover have "st = (ws, snd st)" using s by (metis prod.collapse)
      ultimately show False using assms(2) [of "snd st"] by simp
    qed
  qed
  then show ?thesis by (metis fst_conv not_Some_eq)
qed

subsection \<open>The working set that \<open>minimizeCashFlow\<close> starts from\<close>









subsection \<open>A run on binary64 numbers\<close>

text \<open>
  The balances \<open>dust\<close> are the binary64 numbers 0.3, -0.1 and -0.2. The first pass pays
  0.2 from C to A and leaves A with 0.09999999999999998.
\<close>

lemma settle_fst: "fst (settle fl (ws, ts)) = fst (settle fl (ws, []))"
  by (simp add: settle_def Let_def)





lemma dust_values:
  "binary64 (1 / 10) = 3602879701896397 / 36028797018963968"
  "binary64 (2 / 10) = 3602879701896397 / 18014398509481984"
  by code_simp+

text \<open>
  The filter at the entry of \<open>minimizeCashFlow\<close> keeps the amounts of magnitude above
  0.01, the loop removes those below 0.01: a balance of exactly one cent is dropped at the
  entry, and nothing is suggested for it.
\<close>

lemma minimizeCashFlow_one_cent:
  "nonZeroBalances exact [(''A'', 1 / 100), (''B'', - (1 / 100))] = []
   \<and> minimizeCashFlow exact [(''A'', 1 / 100), (''B'', - (1 / 100))] = Some []
   \<and> minimizeCashFlow exact [(''A'', 501 / 100), (''B'', - 5), (''C'', - (1 / 100))]
       = Some [Transaction ''B'' ''A'' 5]"
  by code_simp

lemma minimizeCashFlow_one_cent_loops:
  "minimizeCashFlow exact [(''A'', 2 / 100), (''B'', 2 / 100), (''C'', - (1 / 100)),
      (''D'', - (1 / 100)), (''E'', - (1 / 100)), (''F'', - (1 / 100))] = None"
proof -
  have n: "nonZeroBalances exact [(''A'', 2 / 100), (''B'', 2 / 100), (''C'', - (1 / 100)),
      (''D'', - (1 / 100)), (''E'', - (1 / 100)), (''F'', - (1 / 100))]
      = [(''A'', 2 / 100), (''B'', 2 / 100)]"
    by code_simp
  have s: "fst (settle exact ([(''A'', 2 / 100), (''B'', 2 / 100)], []))
      = [(''A'', 2 / 100), (''B'', 2 / 100)]"
    by code_simp
  have "fst (settle exact ([(''A'', 2 / 100), (''B'', 2 / 100)], ts))
      = [(''A'', 2 / 100), (''B'', 2 / 100)]" for ts
    using settle_fst [of exact "[(''A'', 2 / 100), (''B'', 2 / 100)]" ts] s by simp
  then have "settleAll exact ([(''A'', 2 / 100), (''B'', 2 / 100)], []) = None"
    by (intro settleAll_diverges) simp_all
  then show ?thesis unfolding minimizeCashFlow_def n .
qed

subsection \<open>Settled totals\<close>




subsection \<open>Termination\<close>




subsection \<open>The suggested payments\<close>




subsection \<open>One pass of the loop\<close>




subsection \<open>A whole run\<close>

text \<open>
  Claim C8. A pays 90, split equally over A, B and C in that order: the shares are 30
  each, the balances are 60 for A and -30 for B and for C, and the suggested payments are
  B to A 30, then C to A 30, in exact arithmetic and on binary64 numbers.
\<close>

theorem scenario_equal_split:
  "calculateSplits exact 90 ''EQUAL'' [equalShare ''A'', equalShare ''B'', equalShare ''C'']
     = Inr [Split ''A'' 30 None, Split ''B'' 30 None, Split ''C'' 30 None]
   \<and> calculateBalances exact
       [\<lparr>paidById = ''A'', expense_amount = 90,
         splits = [Split ''A'' 30 None, Split ''B'' 30 None, Split ''C'' 30 None]\<rparr>]
     = [(''A'', 60), (''B'', - 30), (''C'', - 30)]
   \<and> minimizeCashFlow exact [(''A'', 60), (''B'', - 30), (''C'', - 30)]
     = Some [Transaction ''B'' ''A'' 30, Transaction ''C'' ''A'' 30]
   \<and> calculateSplits binary64 90 ''EQUAL'' [equalShare ''A'', equalShare ''B'', equalShare ''C'']
     = Inr [Split ''A'' 30 None, Split ''B'' 30 None, Split ''C'' 30 None]
   \<and> calculateBalances binary64
       [\<lparr>paidById = ''A'', expense_amount = 90,
         splits = [Split ''A'' 30 None, Split ''B'' 30 None, Split ''C'' 30 None]\<rparr>]
     = [(''A'', 60), (''B'', - 30), (''C'', - 30)]
   \<and> minimizeCashFlow binary64 [(''A'', 60), (''B'', - 30), (''C'', - 30)]
     = Some [Transaction ''B'' ''A'' 30, Transaction ''C'' ''A'' 30]"
  by code_simp

end
